theory Spec2Isabelle
  imports Complex_Main
begin

section \<open>Data model of \<open>src/index.py\<close>\<close>

text \<open>
  Python's \<open>str\<close> is a sequence of Unicode code points, so an utterance is a list of
  code points (natural numbers); a HOL \<open>char\<close> is a byte and would not do.
  Python's \<open>int\<close> is \<open>int\<close>. Python's \<open>float\<close> is modelled by \<open>real\<close>: comparisons,
  \<open>min\<close>, \<open>max\<close> and the order of evaluation are the program's; rounding, infinities
  and NaN are not modelled.
\<close>

type_synonym pystr = "nat list"

datatype MessageLength = SHORT | MEDIUM | LONG

record Message =
  content :: pystr
  timestamp :: real
  is_user :: bool
  length_cat :: MessageLength

record ChatbotEngagementMetrics =
  messages :: "Message list"
  page_switches :: int
  slow_responses :: int
  external_clicks :: int
  ghosting_time :: real
  last_bot_response_time :: "real option"

datatype error = ZeroDivisionError

text \<open>\<open>__init__\<close> (lines 20-26).\<close>

definition init :: ChatbotEngagementMetrics where
  "init = \<lparr>messages = [], page_switches = 0, slow_responses = 0, external_clicks = 0,
            ghosting_time = 0, last_bot_response_time = None\<rparr>"

section \<open>The length classifier\<close>

text \<open>
  \<open>str.split()\<close> without an argument splits at runs of whitespace and returns no empty
  word. A code point is whitespace for \<open>str.split\<close> when \<open>str.isspace\<close> holds of it:
  U+0009..U+000D, U+001C..U+0020, U+0085, U+00A0, U+1680, U+2000..U+200A, U+2028, U+2029,
  U+202F, U+205F and U+3000.
\<close>

definition isspace :: "nat \<Rightarrow> bool" where
  "isspace c =
     ((9 \<le> c \<and> c \<le> 13) \<or> (28 \<le> c \<and> c \<le> 32) \<or> c = 133 \<or> c = 160 \<or> c = 5760 \<or>
      (8192 \<le> c \<and> c \<le> 8202) \<or> c = 8232 \<or> c = 8233 \<or> c = 8239 \<or> c = 8287 \<or> c = 12288)"

text \<open>
  The library loop of \<open>str.split()\<close>: skip whitespace; if the text is used up, stop;
  otherwise the word runs up to the next whitespace (or the end), and the loop goes on
  behind it.
\<close>

function str_split :: "pystr \<Rightarrow> pystr list" where
  "str_split s =
     (case dropWhile isspace s of
        [] \<Rightarrow> []
      | c # cs \<Rightarrow>
          (c # takeWhile (\<lambda>x. \<not> isspace x) cs) # str_split (dropWhile (\<lambda>x. \<not> isspace x) cs))"
  by pat_completeness auto
termination
proof (relation "measure length")
  fix s :: pystr and c cs
  assume a: "dropWhile isspace s = c # cs"
  have "length (dropWhile (\<lambda>x. \<not> isspace x) cs) \<le> length cs"
    by (rule length_dropWhile_le)
  moreover have "length (dropWhile isspace s) \<le> length s"
    by (rule length_dropWhile_le)
  ultimately have "length (dropWhile (\<lambda>x. \<not> isspace x) cs) < length s"
    using a by simp
  then show "(dropWhile (\<lambda>x. \<not> isspace x) cs, s) \<in> measure length"
    by simp
qed simp

declare str_split.simps [simp del]

text \<open>\<open>_categorize_length\<close> (lines 70-77).\<close>

definition categorize_length :: "pystr \<Rightarrow> MessageLength" where
  "categorize_length txt =
     (let word_count = int (length (str_split txt))
      in if word_count < 5 then SHORT
         else if word_count < 20 then MEDIUM
         else LONG)"

text \<open>
  The spec's words for the same count, to compare with: the words of a text are its
  maximal runs of non-whitespace, so there are as many words as there are places where
  a non-whitespace code point stands at the start of the text or behind a whitespace one.
\<close>

fun count_word_starts :: "bool \<Rightarrow> pystr \<Rightarrow> nat" where
  "count_word_starts prev_space [] = 0"
| "count_word_starts prev_space (c # cs) =
     (if prev_space \<and> \<not> isspace c then 1 else 0) + count_word_starts (isspace c) cs"

definition spec_word_count :: "pystr \<Rightarrow> nat" where
  "spec_word_count s = count_word_starts True s"

section \<open>The engagement accumulator\<close>

text \<open>
  The methods read the wall clock with \<open>time.time()\<close>. Each reading is an argument of
  the model, in the order the method takes them; nothing is assumed about the clock.
  \<open>self\<close> is passed in and the updated object is returned.
\<close>

text \<open>
  \<open>add_message\<close> (lines 28-33) reads the clock twice: \<open>now1\<close> stamps the message,
  \<open>now2\<close> becomes \<open>last_bot_response_time\<close>.
\<close>

definition add_message ::
  "ChatbotEngagementMetrics \<Rightarrow> pystr \<Rightarrow> bool \<Rightarrow> real \<Rightarrow> real \<Rightarrow> ChatbotEngagementMetrics" where
  "add_message self txt user now1 now2 =
     (let len = categorize_length txt;
          self1 = self\<lparr>messages := messages self @
                    [\<lparr>content = txt, timestamp = now1, is_user = user, length_cat = len\<rparr>]\<rparr>
      in if \<not> user then self1\<lparr>last_bot_response_time := Some now2\<rparr> else self1)"

text \<open>
  \<open>record_page_switch\<close> (lines 35-37). The guard \<open>self.last_bot_response_time and ...\<close>
  tests the truth value of an \<open>Optional[float]\<close>: \<open>None\<close> and \<open>0.0\<close> are both false.
\<close>

definition record_page_switch :: "ChatbotEngagementMetrics \<Rightarrow> real \<Rightarrow> ChatbotEngagementMetrics" where
  "record_page_switch self now =
     (case last_bot_response_time self of
        None \<Rightarrow> self
      | Some t \<Rightarrow>
          if t \<noteq> 0 \<and> now - t < 5 then self\<lparr>page_switches := page_switches self + 1\<rparr>
          else self)"

text \<open>
  \<open>record_slow_response\<close> (lines 39-43). \<open>messages[-1]\<close> and \<open>messages[-2]\<close> are read
  behind the guard \<open>len(self.messages) >= 2\<close>, where both indices are in range.
\<close>

definition record_slow_response :: "ChatbotEngagementMetrics \<Rightarrow> ChatbotEngagementMetrics" where
  "record_slow_response self =
     (if length (messages self) \<ge> 2 then
        let time_diff = timestamp (messages self ! (length (messages self) - 1))
                      - timestamp (messages self ! (length (messages self) - 2))
        in if time_diff > 30 then self\<lparr>slow_responses := slow_responses self + 1\<rparr> else self
      else self)"

text \<open>\<open>record_external_click\<close> (lines 45-46).\<close>

definition record_external_click :: "ChatbotEngagementMetrics \<Rightarrow> ChatbotEngagementMetrics" where
  "record_external_click self = self\<lparr>external_clicks := external_clicks self + 1\<rparr>"

text \<open>
  \<open>update_ghosting_time\<close> (lines 48-50); \<open>messages[-1]\<close> is read only when the list is
  not empty.
\<close>

definition update_ghosting_time :: "ChatbotEngagementMetrics \<Rightarrow> real \<Rightarrow> ChatbotEngagementMetrics" where
  "update_ghosting_time self now =
     (if messages self \<noteq> [] \<and> \<not> is_user (messages self ! (length (messages self) - 1)) then
        self\<lparr>ghosting_time := ghosting_time self
                  + (now - timestamp (messages self ! (length (messages self) - 1)))\<rparr>
      else self)"

text \<open>\<open>_calculate_avg_response_time\<close> (lines 79-84): the loop over \<open>range(1, len)\<close>.\<close>

fun response_times :: "Message list \<Rightarrow> real list" where
  "response_times (prev # cur # ms) =
     (if is_user cur \<noteq> is_user prev then [timestamp cur - timestamp prev] else [])
       @ response_times (cur # ms)"
| "response_times ms = []"

definition calculate_avg_response_time :: "ChatbotEngagementMetrics \<Rightarrow> real" where
  "calculate_avg_response_time self =
     (let rts = response_times (messages self)
      in if rts \<noteq> [] then sum_list rts / real (length rts) else 0)"

text \<open>
  Python's \<open>/\<close> raises \<open>ZeroDivisionError\<close> on a zero divisor, also between two
  \<open>int\<close>s, where it is the true division.
\<close>

definition true_div :: "real \<Rightarrow> real \<Rightarrow> error + real" where
  "true_div a b = (if b = 0 then Inl ZeroDivisionError else Inr (a / b))"

text \<open>
  \<open>get_engagement_score\<close> (lines 52-68). The five quotients are evaluated from left to
  right, and the first one that raises ends the call.
\<close>

definition get_engagement_score :: "ChatbotEngagementMetrics \<Rightarrow> error + real" where
  "get_engagement_score self =
     (if length (messages self) < 6 then Inr 0
      else
        let total_messages = int (length (messages self));
            user_messages = (\<Sum>msg\<leftarrow>filter is_user (messages self). (1::int));
            avg_response_time = calculate_avg_response_time self
        in case true_div (of_int user_messages) (of_int total_messages) of
             Inl e \<Rightarrow> Inl e
           | Inr q1 \<Rightarrow>
         (case true_div (of_int (page_switches self)) (of_int total_messages) of
             Inl e \<Rightarrow> Inl e
           | Inr q2 \<Rightarrow>
         (case true_div (of_int (slow_responses self)) (of_int user_messages) of
             Inl e \<Rightarrow> Inl e
           | Inr q3 \<Rightarrow>
         (case true_div (of_int (external_clicks self)) (of_int total_messages) of
             Inl e \<Rightarrow> Inl e
           | Inr q4 \<Rightarrow>
         (case true_div (ghosting_time self) 300 of
             Inl e \<Rightarrow> Inl e
           | Inr q5 \<Rightarrow>
               let engagement_score =
                     q1 * 0.3 + (1 - q2) * 0.2 + (1 - q3) * 0.2 + (1 - q4) * 0.2
                     + (1 - min q5 1) * 0.1
               in Inr (min (max engagement_score 0) 1))))))"

text \<open>
  \<open>print_metrics\<close> (lines 86-92). The lines are printed one by one, so the five lines of
  counters are out when the score is computed. An \<open>int\<close> is printed in decimal; the
  rendering \<open>:.2f\<close> of a float is the parameter \<open>fmt2f\<close>. The result is the lines
  printed and how the call ended.
\<close>

fun str_of_nat :: "nat \<Rightarrow> string" where
  "str_of_nat n =
     (if n < 10 then [char_of (48 + n)]
      else str_of_nat (n div 10) @ [char_of (48 + n mod 10)])"

declare str_of_nat.simps [simp del]

definition str_of_int :: "int \<Rightarrow> string" where
  "str_of_int i = (if i < 0 then CHR ''-'' # str_of_nat (nat (- i)) else str_of_nat (nat i))"

definition print_metrics ::
  "(real \<Rightarrow> string) \<Rightarrow> ChatbotEngagementMetrics \<Rightarrow> string list \<times> (error + unit)" where
  "print_metrics fmt2f self =
     (let out =
        [''Total messages: '' @ str_of_int (int (length (messages self))),
         ''Page switches: '' @ str_of_int (page_switches self),
         ''Slow responses: '' @ str_of_int (slow_responses self),
         ''External clicks: '' @ str_of_int (external_clicks self),
         ''Ghosting time: '' @ fmt2f (ghosting_time self) @ '' seconds'']
      in case get_engagement_score self of
           Inl e \<Rightarrow> (out, Inl e)
         | Inr score \<Rightarrow> (out @ [''Engagement score: '' @ fmt2f score], Inr ()))"

subsection \<open>Sequences of calls\<close>

text \<open>The recording calls, each with the clock readings it takes.\<close>

datatype call =
    AddMessage pystr bool real real
  | RecordPageSwitch real
  | RecordSlowResponse
  | RecordExternalClick
  | UpdateGhostingTime real

fun apply_call :: "ChatbotEngagementMetrics \<Rightarrow> call \<Rightarrow> ChatbotEngagementMetrics" where
  "apply_call self (AddMessage txt user now1 now2) = add_message self txt user now1 now2"
| "apply_call self (RecordPageSwitch now) = record_page_switch self now"
| "apply_call self RecordSlowResponse = record_slow_response self"
| "apply_call self RecordExternalClick = record_external_click self"
| "apply_call self (UpdateGhostingTime now) = update_ghosting_time self now"

fun run :: "ChatbotEngagementMetrics \<Rightarrow> call list \<Rightarrow> ChatbotEngagementMetrics" where
  "run self [] = self"
| "run self (c # cs) = run (apply_call self c) cs"

subsection \<open>The reading methods, statement by statement\<close>

text \<open>
  To say what a call leaves behind, the two reading methods are also written as the
  sequence of their statements over the world a call can change: the object \<open>self\<close>
  refers to and the lines on standard output. A statement reads an attribute of \<open>self\<close>,
  assigns to \<open>self\<close>, prints a line, or computes a value that may raise; \<open>seq\<close> runs
  one after the other and stops at the first that raises.
\<close>

record world =
  this :: ChatbotEngagementMetrics
  stdout :: "string list"

type_synonym 'a prog = "world \<Rightarrow> (error + 'a) \<times> world"

definition ret :: "'a \<Rightarrow> 'a prog" where
  "ret x w = (Inr x, w)"

definition lift_result :: "error + 'a \<Rightarrow> 'a prog" where
  "lift_result r w = (r, w)"

definition seq :: "'a prog \<Rightarrow> ('a \<Rightarrow> 'b prog) \<Rightarrow> 'b prog" where
  "seq m f w = (case m w of (Inl e, w1) \<Rightarrow> (Inl e, w1) | (Inr x, w1) \<Rightarrow> f x w1)"

definition read_attr :: "(ChatbotEngagementMetrics \<Rightarrow> 'a) \<Rightarrow> 'a prog" where
  "read_attr f w = (Inr (f (this w)), w)"

definition assign :: "(ChatbotEngagementMetrics \<Rightarrow> ChatbotEngagementMetrics) \<Rightarrow> unit prog" where
  "assign g w = (Inr (), w\<lparr>this := g (this w)\<rparr>)"

definition print_line :: "string \<Rightarrow> unit prog" where
  "print_line s w = (Inr (), w\<lparr>stdout := stdout w @ [s]\<rparr>)"

text \<open>\<open>_calculate_avg_response_time\<close> (lines 79-84).\<close>

definition calculate_avg_response_time_prog :: "real prog" where
  "calculate_avg_response_time_prog =
     seq (read_attr messages) (\<lambda>msgs.
       let rts = response_times msgs
       in ret (if rts \<noteq> [] then sum_list rts / real (length rts) else 0))"

text \<open>
  \<open>get_engagement_score\<close> (lines 52-68): \<open>self.messages\<close> is read for the guard, for
  \<open>total_messages\<close> and for \<open>user_messages\<close>, then the average is computed, then the
  five terms are evaluated from left to right, each reading its attribute.
\<close>

definition get_engagement_score_prog :: "real prog" where
  "get_engagement_score_prog =
     seq (read_attr messages) (\<lambda>msgs0.
       if length msgs0 < 6 then ret 0
       else
         seq (read_attr messages) (\<lambda>msgs1.
         seq (read_attr messages) (\<lambda>msgs2.
         seq calculate_avg_response_time_prog (\<lambda>avg_response_time.
         let total_messages = int (length msgs1);
             user_messages = (\<Sum>msg\<leftarrow>filter is_user msgs2. (1::int))
         in
         seq (lift_result (true_div (of_int user_messages) (of_int total_messages))) (\<lambda>q1.
         seq (read_attr page_switches) (\<lambda>ps.
         seq (lift_result (true_div (of_int ps) (of_int total_messages))) (\<lambda>q2.
         seq (read_attr slow_responses) (\<lambda>sr.
         seq (lift_result (true_div (of_int sr) (of_int user_messages))) (\<lambda>q3.
         seq (read_attr external_clicks) (\<lambda>ec.
         seq (lift_result (true_div (of_int ec) (of_int total_messages))) (\<lambda>q4.
         seq (read_attr ghosting_time) (\<lambda>gt.
         seq (lift_result (true_div gt 300)) (\<lambda>q5.
         let engagement_score =
               q1 * 0.3 + (1 - q2) * 0.2 + (1 - q3) * 0.2 + (1 - q4) * 0.2
               + (1 - min q5 1) * 0.1
         in ret (min (max engagement_score 0) 1))))))))))))))"

text \<open>\<open>print_metrics\<close> (lines 86-92): six \<open>print\<close> statements, the last one calling
  \<open>get_engagement_score\<close>.\<close>

definition print_metrics_prog :: "(real \<Rightarrow> string) \<Rightarrow> unit prog" where
  "print_metrics_prog fmt2f =
     seq (read_attr messages) (\<lambda>msgs.
     seq (print_line (''Total messages: '' @ str_of_int (int (length msgs)))) (\<lambda>_.
     seq (read_attr page_switches) (\<lambda>ps.
     seq (print_line (''Page switches: '' @ str_of_int ps)) (\<lambda>_.
     seq (read_attr slow_responses) (\<lambda>sr.
     seq (print_line (''Slow responses: '' @ str_of_int sr)) (\<lambda>_.
     seq (read_attr external_clicks) (\<lambda>ec.
     seq (print_line (''External clicks: '' @ str_of_int ec)) (\<lambda>_.
     seq (read_attr ghosting_time) (\<lambda>gt.
     seq (print_line (''Ghosting time: '' @ fmt2f gt @ '' seconds'')) (\<lambda>_.
     seq get_engagement_score_prog (\<lambda>score.
     print_line (''Engagement score: '' @ fmt2f score))))))))))))"

text \<open>\<open>record_external_click\<close> (lines 45-46) in the same form, a method that assigns.\<close>

definition record_external_click_prog :: "unit prog" where
  "record_external_click_prog =
     seq (read_attr external_clicks) (\<lambda>n.
     assign (\<lambda>self. self\<lparr>external_clicks := n + 1\<rparr>))"

text \<open>
  \<open>repeat_prog n m\<close> makes \<open>n\<close> calls of the method \<open>m\<close> in a row, each on the world
  the call before left, and collects how each call ended.
\<close>

fun repeat_prog :: "nat \<Rightarrow> 'a prog \<Rightarrow> world \<Rightarrow> (error + 'a) list \<times> world" where
  "repeat_prog 0 m w = ([], w)"
| "repeat_prog (Suc n) m w =
     (case m w of (r, w1) \<Rightarrow>
        (case repeat_prog n m w1 of (rs, w2) \<Rightarrow> (r # rs, w2)))"

text \<open>
  The clock is not behind the history at a call when the reading the call takes is not
  earlier than the timestamp of the latest message; only \<open>update_ghosting_time\<close>
  compares the two.
\<close>

fun clock_not_behind :: "ChatbotEngagementMetrics \<Rightarrow> call \<Rightarrow> bool" where
  "clock_not_behind self (UpdateGhostingTime now) =
     (messages self = [] \<or> timestamp (last (messages self)) \<le> now)"
| "clock_not_behind self c = True"

section \<open>Properties of the length classifier\<close>

lemma split_stop: "dropWhile isspace s = [] \<Longrightarrow> str_split s = []"
  by (subst str_split.simps) (simp only: list.case)

lemma split_word:
  "dropWhile isspace s = c # cs \<Longrightarrow>
   str_split s = (c # takeWhile (\<lambda>x. \<not> isspace x) cs) # str_split (dropWhile (\<lambda>x. \<not> isspace x) cs)"
  by (subst str_split.simps) (simp only: list.case)

lemma split_Nil: "str_split [] = []"
  by (rule split_stop) simp

lemma split_all_space: "(\<And>c. c \<in> set s \<Longrightarrow> isspace c) \<Longrightarrow> str_split s = []"
  by (rule split_stop) simp

lemma count_skip_space:
  "count_word_starts True (dropWhile isspace s) = count_word_starts True s"
  by (induction s) simp_all

lemma count_skip_word:
  "count_word_starts True (dropWhile (\<lambda>x. \<not> isspace x) cs) = count_word_starts False cs"
  by (induction cs) simp_all

lemma length_split: "length (str_split s) = spec_word_count s"
  unfolding spec_word_count_def
proof (induction s rule: str_split.induct)
  case (1 s)
  show ?case
  proof (cases "dropWhile isspace s")
    case Nil
    have "count_word_starts True s = count_word_starts True []"
      using count_skip_space [of s] by (simp only: Nil)
    then show ?thesis
      by (simp add: split_stop [OF Nil])
  next
    case (Cons c cs)
    then have c: "\<not> isspace c"
      using hd_dropWhile [of isspace s] by simp
    have "count_word_starts True s = count_word_starts True (c # cs)"
      using count_skip_space [of s] Cons by simp
    also have "\<dots> = Suc (count_word_starts False cs)"
      using c by simp
    also have "\<dots> = Suc (length (str_split (dropWhile (\<lambda>x. \<not> isspace x) cs)))"
      using "1.IH" [OF Cons] count_skip_word [of cs] by simp
    finally show ?thesis
      by (simp add: split_word [OF Cons])
  qed
qed

lemma split_words_nonempty: "w \<in> set (str_split s) \<Longrightarrow> w \<noteq> [] \<and> (\<forall>c \<in> set w. \<not> isspace c)"
proof (induction s arbitrary: w rule: str_split.induct)
  case (1 s)
  show ?case
  proof (cases "dropWhile isspace s")
    case Nil
    with "1.prems" show ?thesis
      by (simp add: split_stop [OF Nil])
  next
    case (Cons c cs)
    then have c: "\<not> isspace c"
      using hd_dropWhile [of isspace s] by simp
    from "1.prems"
    consider "w = c # takeWhile (\<lambda>x. \<not> isspace x) cs"
      | "w \<in> set (str_split (dropWhile (\<lambda>x. \<not> isspace x) cs))"
      by (auto simp add: split_word [OF Cons])
    then show ?thesis
    proof cases
      case 1
      then show ?thesis
        using c by (auto dest: set_takeWhileD)
    next
      case 2
      then show ?thesis
        using "1.IH" [OF Cons] by blast
    qed
  qed
qed

lemma concat_split: "concat (str_split s) = filter (\<lambda>x. \<not> isspace x) s"
proof (induction s rule: str_split.induct)
  case (1 s)
  have skip: "filter (\<lambda>x. \<not> isspace x) s = filter (\<lambda>x. \<not> isspace x) (dropWhile isspace s)"
    by (induction s) simp_all
  show ?case
  proof (cases "dropWhile isspace s")
    case Nil
    have "filter (\<lambda>x. \<not> isspace x) s = []"
      using skip by (simp only: Nil filter.simps)
    then show ?thesis
      by (simp add: split_stop [OF Nil])
  next
    case (Cons c cs)
    then have c: "\<not> isspace c"
      using hd_dropWhile [of isspace s] by simp
    have word: "filter (\<lambda>x. \<not> isspace x) cs =
        takeWhile (\<lambda>x. \<not> isspace x) cs @ filter (\<lambda>x. \<not> isspace x) (dropWhile (\<lambda>x. \<not> isspace x) cs)"
      by (induction cs) simp_all
    have "filter (\<lambda>x. \<not> isspace x) s = c # filter (\<lambda>x. \<not> isspace x) cs"
      using c by (simp add: skip Cons)
    then show ?thesis
      using word "1.IH" [OF Cons] by (simp add: split_word [OF Cons])
  qed
qed

text \<open>
  Claim C4. For every text, empty and whitespace-only ones included, the classifier counts
  the words between whitespace and returns \<open>SHORT\<close> below 5 words, \<open>MEDIUM\<close> from 5
  to 19 and \<open>LONG\<close> from 20 on; the empty text has 0 words and is \<open>SHORT\<close>. The number
  of words \<open>str.split()\<close> returns is the number of word starts of the text.
\<close>

theorem categorize_length_by_word_count:
  "length (str_split txt) = spec_word_count txt \<and>
   (spec_word_count txt < 5 \<longrightarrow> categorize_length txt = SHORT) \<and>
   (5 \<le> spec_word_count txt \<and> spec_word_count txt \<le> 19 \<longrightarrow> categorize_length txt = MEDIUM) \<and>
   (20 \<le> spec_word_count txt \<longrightarrow> categorize_length txt = LONG) \<and>
   categorize_length [] = SHORT \<and>
   ((\<forall>c \<in> set txt. isspace c) \<longrightarrow> spec_word_count txt = 0 \<and> categorize_length txt = SHORT)"
proof -
  have n: "length (str_split txt) = spec_word_count txt"
    by (rule length_split)
  have e: "categorize_length [] = SHORT"
    by (simp add: categorize_length_def split_Nil)
  have w: "spec_word_count txt = 0 \<and> categorize_length txt = SHORT"
    if "\<forall>c \<in> set txt. isspace c"
  proof -
    have "str_split txt = []"
      using that by (simp add: split_all_space)
    then show ?thesis
      using n by (simp add: categorize_length_def)
  qed
  show ?thesis
    using n e w by (simp add: categorize_length_def)
qed

text \<open>
  The texts of the witness: the empty one, whitespace only (space, tab, newline), 4 words,
  5 words, 19 words and 20 words.
\<close>

theorem categorize_length_by_word_count_witness:
  "categorize_length [] = SHORT \<and>
   categorize_length [32, 9, 10, 32] = SHORT \<and>
   categorize_length [97, 32, 98, 32, 99, 32, 100] = SHORT \<and>
   categorize_length [97, 32, 98, 32, 99, 32, 100, 32, 101] = MEDIUM \<and>
   categorize_length
     [119, 32, 119, 32, 119, 32, 119, 32, 119, 32, 119, 32, 119, 32, 119, 32, 119,
      32, 119, 32, 119, 32, 119, 32, 119, 32, 119, 32, 119, 32, 119, 32, 119, 32,
      119, 32, 119] = MEDIUM \<and>
   categorize_length
     [119, 32, 119, 32, 119, 32, 119, 32, 119, 32, 119, 32, 119, 32, 119, 32, 119,
      32, 119, 32, 119, 32, 119, 32, 119, 32, 119, 32, 119, 32, 119, 32, 119, 32,
      119, 32, 119, 32, 119] = LONG"
proof -
  have a: "\<forall>c \<in> set [32, 9, 10, 32 :: nat]. isspace c"
    by (simp add: isspace_def)
  have b: "spec_word_count [97, 32, 98, 32, 99, 32, 100] = 4"
    by (simp add: spec_word_count_def isspace_def)
  have c: "spec_word_count [97, 32, 98, 32, 99, 32, 100, 32, 101] = 5"
    by (simp add: spec_word_count_def isspace_def)
  have d: "spec_word_count
     [119, 32, 119, 32, 119, 32, 119, 32, 119, 32, 119, 32, 119, 32, 119, 32, 119,
      32, 119, 32, 119, 32, 119, 32, 119, 32, 119, 32, 119, 32, 119, 32, 119, 32,
      119, 32, 119] = 19"
    by (simp add: spec_word_count_def isspace_def)
  have e: "spec_word_count
     [119, 32, 119, 32, 119, 32, 119, 32, 119, 32, 119, 32, 119, 32, 119, 32, 119,
      32, 119, 32, 119, 32, 119, 32, 119, 32, 119, 32, 119, 32, 119, 32, 119, 32,
      119, 32, 119, 32, 119] = 20"
    by (simp add: spec_word_count_def isspace_def)
  show ?thesis
    using categorize_length_by_word_count [of "[32, 9, 10, 32]"]
      categorize_length_by_word_count [of "[97, 32, 98, 32, 99, 32, 100]"]
      categorize_length_by_word_count [of "[97, 32, 98, 32, 99, 32, 100, 32, 101]"]
      categorize_length_by_word_count [of
     "[119, 32, 119, 32, 119, 32, 119, 32, 119, 32, 119, 32, 119, 32, 119, 32, 119,
      32, 119, 32, 119, 32, 119, 32, 119, 32, 119, 32, 119, 32, 119, 32, 119, 32,
      119, 32, 119]"]
      categorize_length_by_word_count [of
     "[119, 32, 119, 32, 119, 32, 119, 32, 119, 32, 119, 32, 119, 32, 119, 32, 119,
      32, 119, 32, 119, 32, 119, 32, 119, 32, 119, 32, 119, 32, 119, 32, 119, 32,
      119, 32, 119, 32, 119]"]
      a b c d e
    by simp
qed

section \<open>Properties of the engagement score\<close>

lemmas acc_defs = add_message_def record_page_switch_def record_slow_response_def
  record_external_click_def update_ghosting_time_def init_def

lemma user_count_length: "(\<Sum>msg\<leftarrow>xs. (1::int)) = int (length xs)"
  by (induction xs) simp_all

text \<open>
  Whenever the score is returned it lies in the unit interval, and it is returned
  whenever there are fewer than 6 messages or some message of the user.
\<close>

lemma score_range: "get_engagement_score self = Inr r \<Longrightarrow> 0 \<le> r \<and> r \<le> 1"
  by (auto simp add: get_engagement_score_def true_div_def Let_def split: if_splits sum.splits)

lemma score_returns:
  assumes "length (messages self) < 6 \<or> (\<exists>m \<in> set (messages self). is_user m)"
  shows "\<exists>r. get_engagement_score self = Inr r \<and> 0 \<le> r \<and> r \<le> 1"
proof (cases "length (messages self) < 6")
  case True
  then show ?thesis
    by (simp add: get_engagement_score_def)
next
  case False
  with assms have "filter is_user (messages self) \<noteq> []"
    by (simp add: filter_empty_conv)
  then have "(\<Sum>msg\<leftarrow>filter is_user (messages self). (1::int)) \<noteq> 0"
    by (simp add: user_count_length)
  with False show ?thesis
    by (auto simp add: get_engagement_score_def true_div_def Let_def)
qed

text \<open>
  Claim C1 asks that on a history of 6 or more messages, none of them of the user,
  \<open>get_engagement_score\<close> raises no division error and counts the slow-response term
  as 1. The program has no such guard: on every such state the quotient
  \<open>self.slow_responses / user_messages\<close> raises \<open>ZeroDivisionError\<close> and no score is
  returned.
\<close>

theorem score_without_user_messages_raises:
  assumes "6 \<le> length (messages self)"
    and "\<forall>m \<in> set (messages self). \<not> is_user m"
  shows "get_engagement_score self = Inl ZeroDivisionError"
proof -
  have "filter is_user (messages self) = []"
    using assms(2) by (simp add: filter_empty_conv)
  then show ?thesis
    using assms(1) by (simp add: get_engagement_score_def true_div_def Let_def)
qed

theorem score_without_user_messages_raises_witness:
  "get_engagement_score (run init
     [AddMessage [] False 1 1, AddMessage [] False 2 2, AddMessage [] False 3 3,
      AddMessage [] False 4 4, AddMessage [] False 5 5, AddMessage [] False 6 6])
   = Inl ZeroDivisionError"
  using score_without_user_messages_raises [of "run init
     [AddMessage [] False 1 1, AddMessage [] False 2 2, AddMessage [] False 3 3,
      AddMessage [] False 4 4, AddMessage [] False 5 5, AddMessage [] False 6 6]"]
  by (simp add: acc_defs)

text \<open>
  Claim C2 asks that after any sequence of recording calls \<open>get_engagement_score\<close>
  returns a value in [0, 1]. The clamp does keep every returned score there
  (\<open>score_range\<close>), but a sequence of recording calls can leave 6 messages and none of the
  user, and then no value is returned: here six messages of the bot ("hi" first) and one
  external click.
\<close>

theorem score_after_bot_only_calls:
  "get_engagement_score (run init
     [AddMessage [104, 105] False 10 10, AddMessage [] False 12 12,
      AddMessage [] False 13 13, AddMessage [] False 14 14, RecordExternalClick,
      AddMessage [] False 15 15, AddMessage [] False 16 16])
   = Inl ZeroDivisionError"
  by (simp add: acc_defs get_engagement_score_def true_div_def)

text \<open>
  Claim C3. With fewer than 6 messages in the history \<open>get_engagement_score\<close> returns
  exactly 0.0, whatever the counters hold.
\<close>

theorem score_below_six_messages:
  "length (messages self) < 6 \<Longrightarrow> get_engagement_score self = Inr 0"
  by (simp add: get_engagement_score_def)

theorem score_below_six_messages_witness:
  "get_engagement_score
     \<lparr>messages = [\<lparr>content = [], timestamp = 1, is_user = False, length_cat = SHORT\<rparr>],
      page_switches = 7, slow_responses = - 3, external_clicks = 100, ghosting_time = 1000,
      last_bot_response_time = None\<rparr> = Inr 0"
  using score_below_six_messages [of
     "\<lparr>messages = [\<lparr>content = [], timestamp = 1, is_user = False, length_cat = SHORT\<rparr>],
      page_switches = 7, slow_responses = - 3, external_clicks = 100, ghosting_time = 1000,
      last_bot_response_time = None\<rparr>"]
  by simp

section \<open>Properties of the recording calls\<close>


text \<open>
  Claim C10. When \<open>last_bot_response_time\<close> is exactly 0.0, as after a message of the
  bot stamped at time zero, \<open>record_page_switch\<close> changes nothing, whatever the current
  time, so also less than 5 seconds later: the guard tests the truth value of the time,
  and 0.0 is treated like \<open>None\<close>, for which the call changes nothing either.
\<close>

theorem record_page_switch_zero_stamp:
  "(last_bot_response_time self = Some 0 \<longrightarrow> record_page_switch self now = self) \<and>
   (last_bot_response_time self = None \<longrightarrow> record_page_switch self now = self) \<and>
   record_page_switch (add_message self txt False now1 0) now
     = add_message self txt False now1 0"
  by (simp add: record_page_switch_def add_message_def Let_def)

theorem record_page_switch_zero_stamp_witness:
  "last_bot_response_time (add_message init [] False 0 0) = Some 0 \<and>
   (1::real) - 0 < 5 \<and>
   record_page_switch (add_message init [] False 0 0) 1 = add_message init [] False 0 0 \<and>
   page_switches (record_page_switch (add_message init [] False 0 0) 1) = 0 \<and>
   record_page_switch init 1 = init"
  using record_page_switch_zero_stamp [where self = "add_message init [] False 0 0" and now = 1]
    record_page_switch_zero_stamp [where self = init and now = 1]
  by (simp add: acc_defs)

text \<open>
  Claim C6. \<open>record_slow_response\<close> changes nothing when the history has fewer than 2
  messages, and adds exactly 1 to \<open>slow_responses\<close> when the timestamp of the latest
  message minus that of the one before exceeds 30 seconds; the roles of the two messages
  play no part.
\<close>

theorem record_slow_response_cases:
  "(length (messages self) < 2 \<longrightarrow> record_slow_response self = self) \<and>
   (messages self = ms @ [a, b] \<and> timestamp b - timestamp a > 30 \<longrightarrow>
      record_slow_response self = self\<lparr>slow_responses := slow_responses self + 1\<rparr>)"
proof -
  have "messages self ! (length (messages self) - 1) = b \<and>
        messages self ! (length (messages self) - 2) = a"
    if "messages self = ms @ [a, b]"
    using that by (simp add: nth_append)
  then show ?thesis
    by (auto simp add: record_slow_response_def Let_def)
qed

text \<open>
  The witness: one message; two messages of the user 31 seconds apart; a message of the
  bot and one of the user 39 seconds apart.
\<close>

theorem record_slow_response_cases_witness:
  "record_slow_response (add_message init [] True 1 1) = add_message init [] True 1 1 \<and>
   record_slow_response (add_message (add_message init [] True 1 1) [] True 32 32)
     = (add_message (add_message init [] True 1 1) [] True 32 32)\<lparr>slow_responses := 1\<rparr> \<and>
   record_slow_response (add_message (add_message init [] False 1 1) [] True 40 40)
     = (add_message (add_message init [] False 1 1) [] True 40 40)\<lparr>slow_responses := 1\<rparr>"
  using record_slow_response_cases [where self = "add_message init [] True 1 1"]
    record_slow_response_cases
      [where self = "add_message (add_message init [] True 1 1) [] True 32 32" and ms = "[]" and
        a = "\<lparr>content = [], timestamp = 1, is_user = True, length_cat = categorize_length []\<rparr>" and
        b = "\<lparr>content = [], timestamp = 32, is_user = True, length_cat = categorize_length []\<rparr>"]
    record_slow_response_cases
      [where self = "add_message (add_message init [] False 1 1) [] True 40 40" and ms = "[]" and
        a = "\<lparr>content = [], timestamp = 1, is_user = False, length_cat = categorize_length []\<rparr>" and
        b = "\<lparr>content = [], timestamp = 40, is_user = True, length_cat = categorize_length []\<rparr>"]
  by (simp add: acc_defs)

lemma record_slow_response_small_gap:
  "messages self = ms @ [a, b] \<Longrightarrow> \<not> timestamp b - timestamp a > 30 \<Longrightarrow>
   record_slow_response self = self"
  by (simp add: record_slow_response_def Let_def nth_append)

text \<open>
  Claim C7, as the program has it. \<open>update_ghosting_time\<close> changes nothing when the
  history is empty or its latest message is of the user; otherwise it adds to
  \<open>ghosting_time\<close> the current time minus the timestamp of the latest message, and
  that duration is not negative provided the current time is not earlier than that
  timestamp.
\<close>

theorem update_ghosting_time_cases:
  "(messages self = [] \<longrightarrow> update_ghosting_time self now = self) \<and>
   (messages self = ms @ [m] \<and> is_user m \<longrightarrow> update_ghosting_time self now = self) \<and>
   (messages self = ms @ [m] \<and> \<not> is_user m \<longrightarrow>
      update_ghosting_time self now
        = self\<lparr>ghosting_time := ghosting_time self + (now - timestamp m)\<rparr>) \<and>
   (messages self = ms @ [m] \<and> \<not> is_user m \<and> timestamp m \<le> now \<longrightarrow>
      0 \<le> now - timestamp m \<and>
      ghosting_time self \<le> ghosting_time (update_ghosting_time self now))"
  by (auto simp add: update_ghosting_time_def)

theorem update_ghosting_time_cases_witness:
  "update_ghosting_time init 9 = init \<and>
   update_ghosting_time (add_message init [] True 4 4) 9 = add_message init [] True 4 4 \<and>
   update_ghosting_time (add_message init [] False 4 4) 9
     = (add_message init [] False 4 4)\<lparr>ghosting_time := 5\<rparr> \<and>
   ghosting_time (add_message init [] False 4 4)
     \<le> ghosting_time (update_ghosting_time (add_message init [] False 4 4) 9)"
  using update_ghosting_time_cases [where self = init and now = 9]
    update_ghosting_time_cases
      [where self = "add_message init [] True 4 4" and ms = "[]" and now = 9 and
        m = "\<lparr>content = [], timestamp = 4, is_user = True, length_cat = categorize_length []\<rparr>"]
    update_ghosting_time_cases
      [where self = "add_message init [] False 4 4" and ms = "[]" and now = 9 and
        m = "\<lparr>content = [], timestamp = 4, is_user = False, length_cat = categorize_length []\<rparr>"]
  by (simp add: acc_defs)

text \<open>
  Without the proviso the duration can be negative: the latest message is of the bot and
  stamped 10.0, the clock reads 5.0 at the call, and \<open>ghosting_time\<close> changes by -5.
\<close>

theorem update_ghosting_time_negative_counterexample:
  "messages (add_message init [] False 10 10) \<noteq> [] \<and>
   \<not> is_user (last (messages (add_message init [] False 10 10))) \<and>
   ghosting_time (update_ghosting_time (add_message init [] False 10 10) 5)
     - ghosting_time (add_message init [] False 10 10) = - 5"
  by (simp add: acc_defs)

text \<open>
  Claim C8, as the program has it. A fresh accumulator has \<open>page_switches\<close>,
  \<open>slow_responses\<close>, \<open>external_clicks\<close> and \<open>ghosting_time\<close> at zero. No recording call
  decreases \<open>page_switches\<close>, \<open>slow_responses\<close> or \<open>external_clicks\<close>, and none decreases
  \<open>ghosting_time\<close> provided the clock is not behind the history at the call.
  \<open>last_bot_response_time\<close> becomes the (second) clock reading of each \<open>add_message\<close>
  call for the bot, and keeps its value in every other call.
\<close>

theorem counters_never_decrease:
  "page_switches init = 0 \<and> slow_responses init = 0 \<and> external_clicks init = 0 \<and>
   ghosting_time init = 0 \<and> last_bot_response_time init = None \<and>
   page_switches self \<le> page_switches (apply_call self c) \<and>
   slow_responses self \<le> slow_responses (apply_call self c) \<and>
   external_clicks self \<le> external_clicks (apply_call self c) \<and>
   (clock_not_behind self c \<longrightarrow> ghosting_time self \<le> ghosting_time (apply_call self c)) \<and>
   last_bot_response_time (apply_call self c) =
     (case c of
        AddMessage txt user now1 now2 \<Rightarrow>
          (if user then last_bot_response_time self else Some now2)
      | _ \<Rightarrow> last_bot_response_time self)"
proof (cases c)
  case (AddMessage x1 x2 x3 x4)
  then show ?thesis
    by (simp add: acc_defs Let_def)
next
  case (RecordPageSwitch now)
  then show ?thesis
    by (simp add: acc_defs split: option.split)
next
  case RecordSlowResponse
  then show ?thesis
    by (simp add: acc_defs Let_def)
next
  case RecordExternalClick
  then show ?thesis
    by (simp add: acc_defs)
next
  case (UpdateGhostingTime now)
  then show ?thesis
    by (simp add: acc_defs last_conv_nth)
qed

theorem counters_never_decrease_witness:
  "clock_not_behind (add_message init [] False 4 4) (UpdateGhostingTime 9) \<and>
   ghosting_time (add_message init [] False 4 4) = 0 \<and>
   ghosting_time (apply_call (add_message init [] False 4 4) (UpdateGhostingTime 9)) = 5 \<and>
   last_bot_response_time
     (apply_call (add_message init [] False 4 4) (AddMessage [] False 6 7)) = Some 7 \<and>
   last_bot_response_time
     (apply_call (add_message init [] False 4 4) (AddMessage [] True 6 7)) = Some 4 \<and>
   page_switches (add_message init [] False 4 4)
     \<le> page_switches (apply_call (add_message init [] False 4 4) (RecordPageSwitch 5))"
  using counters_never_decrease
      [where self = "add_message init [] False 4 4" and c = "UpdateGhostingTime 9"]
    counters_never_decrease
      [where self = "add_message init [] False 4 4" and c = "AddMessage [] False 6 7"]
    counters_never_decrease
      [where self = "add_message init [] False 4 4" and c = "AddMessage [] True 6 7"]
    counters_never_decrease
      [where self = "add_message init [] False 4 4" and c = "RecordPageSwitch 5"]
  by (simp add: acc_defs)

text \<open>
  With the clock behind the history \<open>ghosting_time\<close> does decrease: the message of the
  bot is stamped 7.0 and the clock reads 3.0 at \<open>update_ghosting_time\<close>.
\<close>

theorem ghosting_time_decreases_counterexample:
  "ghosting_time (apply_call (add_message init [] False 7 7) (UpdateGhostingTime 3))
     < ghosting_time (add_message init [] False 7 7)"
  by (simp add: acc_defs)

text \<open>Along any sequence of recording calls the three counters do not decrease.\<close>

lemma run_counters:
  "page_switches self \<le> page_switches (run self cs) \<and>
   slow_responses self \<le> slow_responses (run self cs) \<and>
   external_clicks self \<le> external_clicks (run self cs)"
proof (induction cs arbitrary: self)
  case Nil
  then show ?case by simp
next
  case (Cons c cs)
  have "page_switches self \<le> page_switches (apply_call self c) \<and>
        slow_responses self \<le> slow_responses (apply_call self c) \<and>
        external_clicks self \<le> external_clicks (apply_call self c)"
    by (cases c) (simp_all add: acc_defs Let_def split: option.split)
  then show ?case
    using Cons.IH [of "apply_call self c"] by force
qed

section \<open>Properties of the reading calls\<close>

lemmas prog_defs = ret_def lift_result_def seq_def read_attr_def assign_def print_line_def

text \<open>
  Run from any world, each reading method ends as the function of the object says and
  assigns nothing to the object; \<open>print_metrics\<close> adds its lines to standard output.
\<close>

lemma calculate_avg_response_time_prog_eq:
  "calculate_avg_response_time_prog w = (Inr (calculate_avg_response_time (this w)), w)"
  by (simp add: calculate_avg_response_time_prog_def calculate_avg_response_time_def
      prog_defs Let_def)

lemma get_engagement_score_prog_eq:
  "get_engagement_score_prog w = (get_engagement_score (this w), w)"
  by (simp add: get_engagement_score_prog_def get_engagement_score_def
      calculate_avg_response_time_prog_eq prog_defs Let_def split: sum.split)

lemma print_metrics_prog_eq:
  "print_metrics_prog fmt2f w =
     (snd (print_metrics fmt2f (this w)),
      w\<lparr>stdout := stdout w @ fst (print_metrics fmt2f (this w))\<rparr>)"
  by (simp add: print_metrics_prog_def print_metrics_def get_engagement_score_prog_eq
      prog_defs Let_def split: sum.split)

text \<open>
  Claim C9. Any number of calls of \<open>get_engagement_score\<close> in a row, with no recording
  call between them, end the same way each time (the same score, or the same error) and
  leave the accumulator and the output as they were; any number of calls of
  \<open>print_metrics\<close> in a row end the same way each time, print the same lines each time
  and leave the accumulator as it was.
\<close>

theorem reading_methods_repeatable:
  "repeat_prog n get_engagement_score_prog w
     = (replicate n (get_engagement_score (this w)), w) \<and>
   repeat_prog n (print_metrics_prog fmt2f) w
     = (replicate n (snd (print_metrics fmt2f (this w))),
        w\<lparr>stdout := stdout w @ concat (replicate n (fst (print_metrics fmt2f (this w))))\<rparr>)"
proof
  show "repeat_prog n get_engagement_score_prog w
     = (replicate n (get_engagement_score (this w)), w)"
    by (induction n) (simp_all add: get_engagement_score_prog_eq)
  show "repeat_prog n (print_metrics_prog fmt2f) w
     = (replicate n (snd (print_metrics fmt2f (this w))),
        w\<lparr>stdout := stdout w @ concat (replicate n (fst (print_metrics fmt2f (this w))))\<rparr>)"
    by (induction n arbitrary: w) (simp_all add: print_metrics_prog_eq)
qed

lemma str_digits: "str_of_int 6 = ''6'' \<and> str_of_int 0 = ''0''"
  by code_simp

lemma six_turns:
  "run init [AddMessage [] False 1 1, AddMessage [] True 2 2, AddMessage [] False 3 3,
             AddMessage [] True 4 4, AddMessage [] False 5 5, AddMessage [] True 6 6]
   = \<lparr>messages =
        [\<lparr>content = [], timestamp = 1, is_user = False, length_cat = SHORT\<rparr>,
         \<lparr>content = [], timestamp = 2, is_user = True, length_cat = SHORT\<rparr>,
         \<lparr>content = [], timestamp = 3, is_user = False, length_cat = SHORT\<rparr>,
         \<lparr>content = [], timestamp = 4, is_user = True, length_cat = SHORT\<rparr>,
         \<lparr>content = [], timestamp = 5, is_user = False, length_cat = SHORT\<rparr>,
         \<lparr>content = [], timestamp = 6, is_user = True, length_cat = SHORT\<rparr>],
      page_switches = 0, slow_responses = 0, external_clicks = 0, ghosting_time = 0,
      last_bot_response_time = Some 5\<rparr>"
  by (simp add: acc_defs categorize_length_def split_Nil)

lemma six_bot_turns:
  "run init [AddMessage [] False 1 1, AddMessage [] False 2 2, AddMessage [] False 3 3,
             AddMessage [] False 4 4, AddMessage [] False 5 5, AddMessage [] False 6 6]
   = \<lparr>messages =
        [\<lparr>content = [], timestamp = 1, is_user = False, length_cat = SHORT\<rparr>,
         \<lparr>content = [], timestamp = 2, is_user = False, length_cat = SHORT\<rparr>,
         \<lparr>content = [], timestamp = 3, is_user = False, length_cat = SHORT\<rparr>,
         \<lparr>content = [], timestamp = 4, is_user = False, length_cat = SHORT\<rparr>,
         \<lparr>content = [], timestamp = 5, is_user = False, length_cat = SHORT\<rparr>,
         \<lparr>content = [], timestamp = 6, is_user = False, length_cat = SHORT\<rparr>],
      page_switches = 0, slow_responses = 0, external_clicks = 0, ghosting_time = 0,
      last_bot_response_time = Some 6\<rparr>"
  by (simp add: acc_defs categorize_length_def split_Nil)

text \<open>
  The witness: two calls in a row after three turns of the bot and of the user each
  (score 0.85), and two calls in a row after six turns of the bot alone, where each call
  raises once the five lines of counters are printed. The rendering of a float is
  \<open>#\<close> here.
\<close>

theorem reading_methods_repeatable_witness:
  "repeat_prog (Suc (Suc 0)) get_engagement_score_prog
     \<lparr>this = run init [AddMessage [] False 1 1, AddMessage [] True 2 2, AddMessage [] False 3 3,
              AddMessage [] True 4 4, AddMessage [] False 5 5, AddMessage [] True 6 6],
      stdout = []\<rparr>
   = ([Inr (17 / 20), Inr (17 / 20)],
      \<lparr>this = run init [AddMessage [] False 1 1, AddMessage [] True 2 2, AddMessage [] False 3 3,
              AddMessage [] True 4 4, AddMessage [] False 5 5, AddMessage [] True 6 6],
       stdout = []\<rparr>) \<and>
   repeat_prog (Suc (Suc 0)) (print_metrics_prog (\<lambda>r. ''#''))
     \<lparr>this = run init [AddMessage [] False 1 1, AddMessage [] True 2 2, AddMessage [] False 3 3,
              AddMessage [] True 4 4, AddMessage [] False 5 5, AddMessage [] True 6 6],
      stdout = []\<rparr>
   = ([Inr (), Inr ()],
      \<lparr>this = run init [AddMessage [] False 1 1, AddMessage [] True 2 2, AddMessage [] False 3 3,
              AddMessage [] True 4 4, AddMessage [] False 5 5, AddMessage [] True 6 6],
       stdout =
         [''Total messages: 6'', ''Page switches: 0'', ''Slow responses: 0'',
          ''External clicks: 0'', ''Ghosting time: # seconds'', ''Engagement score: #'',
          ''Total messages: 6'', ''Page switches: 0'', ''Slow responses: 0'',
          ''External clicks: 0'', ''Ghosting time: # seconds'', ''Engagement score: #'']\<rparr>) \<and>
   repeat_prog (Suc (Suc 0)) get_engagement_score_prog
     \<lparr>this = run init [AddMessage [] False 1 1, AddMessage [] False 2 2, AddMessage [] False 3 3,
              AddMessage [] False 4 4, AddMessage [] False 5 5, AddMessage [] False 6 6],
      stdout = []\<rparr>
   = ([Inl ZeroDivisionError, Inl ZeroDivisionError],
      \<lparr>this = run init [AddMessage [] False 1 1, AddMessage [] False 2 2, AddMessage [] False 3 3,
              AddMessage [] False 4 4, AddMessage [] False 5 5, AddMessage [] False 6 6],
       stdout = []\<rparr>) \<and>
   repeat_prog (Suc (Suc 0)) (print_metrics_prog (\<lambda>r. ''#''))
     \<lparr>this = run init [AddMessage [] False 1 1, AddMessage [] False 2 2, AddMessage [] False 3 3,
              AddMessage [] False 4 4, AddMessage [] False 5 5, AddMessage [] False 6 6],
      stdout = []\<rparr>
   = ([Inl ZeroDivisionError, Inl ZeroDivisionError],
      \<lparr>this = run init [AddMessage [] False 1 1, AddMessage [] False 2 2, AddMessage [] False 3 3,
              AddMessage [] False 4 4, AddMessage [] False 5 5, AddMessage [] False 6 6],
       stdout =
         [''Total messages: 6'', ''Page switches: 0'', ''Slow responses: 0'',
          ''External clicks: 0'', ''Ghosting time: # seconds'',
          ''Total messages: 6'', ''Page switches: 0'', ''Slow responses: 0'',
          ''External clicks: 0'', ''Ghosting time: # seconds'']\<rparr>)"
proof -
  let ?L = "\<lparr>messages =
        [\<lparr>content = [], timestamp = 1, is_user = False, length_cat = SHORT\<rparr>,
         \<lparr>content = [], timestamp = 2, is_user = True, length_cat = SHORT\<rparr>,
         \<lparr>content = [], timestamp = 3, is_user = False, length_cat = SHORT\<rparr>,
         \<lparr>content = [], timestamp = 4, is_user = True, length_cat = SHORT\<rparr>,
         \<lparr>content = [], timestamp = 5, is_user = False, length_cat = SHORT\<rparr>,
         \<lparr>content = [], timestamp = 6, is_user = True, length_cat = SHORT\<rparr>],
      page_switches = 0, slow_responses = 0, external_clicks = 0, ghosting_time = 0,
      last_bot_response_time = Some 5\<rparr>"
  let ?B = "\<lparr>messages =
        [\<lparr>content = [], timestamp = 1, is_user = False, length_cat = SHORT\<rparr>,
         \<lparr>content = [], timestamp = 2, is_user = False, length_cat = SHORT\<rparr>,
         \<lparr>content = [], timestamp = 3, is_user = False, length_cat = SHORT\<rparr>,
         \<lparr>content = [], timestamp = 4, is_user = False, length_cat = SHORT\<rparr>,
         \<lparr>content = [], timestamp = 5, is_user = False, length_cat = SHORT\<rparr>,
         \<lparr>content = [], timestamp = 6, is_user = False, length_cat = SHORT\<rparr>],
      page_switches = 0, slow_responses = 0, external_clicks = 0, ghosting_time = 0,
      last_bot_response_time = Some 6\<rparr>"
  have score: "get_engagement_score ?L = Inr (17 / 20)"
    by (simp add: get_engagement_score_def true_div_def)
  have lines: "print_metrics (\<lambda>r. ''#'') ?L
     = ([''Total messages: 6'', ''Page switches: 0'', ''Slow responses: 0'',
         ''External clicks: 0'', ''Ghosting time: # seconds'', ''Engagement score: #''],
        Inr ())"
    unfolding print_metrics_def score by (simp add: str_digits)
  have raises: "get_engagement_score ?B = Inl ZeroDivisionError"
    by (simp add: get_engagement_score_def true_div_def)
  have partial: "print_metrics (\<lambda>r. ''#'') ?B
     = ([''Total messages: 6'', ''Page switches: 0'', ''Slow responses: 0'',
         ''External clicks: 0'', ''Ghosting time: # seconds''],
        Inl ZeroDivisionError)"
    unfolding print_metrics_def raises by (simp add: str_digits)
  show ?thesis
    unfolding six_turns six_bot_turns
    using reading_methods_repeatable [where n = "Suc (Suc 0)" and fmt2f = "\<lambda>r. ''#''" and
        w = "\<lparr>this = ?L, stdout = []\<rparr>"]
      reading_methods_repeatable [where n = "Suc (Suc 0)" and fmt2f = "\<lambda>r. ''#''" and
        w = "\<lparr>this = ?B, stdout = []\<rparr>"]
    by (simp add: score lines raises partial)
qed

text \<open>
  A recording call between two reading calls does change the result, and a method that
  assigns does not leave the object as it was.
\<close>

lemma click_changes_score:
  "get_engagement_score (record_external_click
     (run init [AddMessage [] False 1 1, AddMessage [] True 2 2, AddMessage [] False 3 3,
                AddMessage [] True 4 4, AddMessage [] False 5 5, AddMessage [] True 6 6]))
   \<noteq> get_engagement_score
     (run init [AddMessage [] False 1 1, AddMessage [] True 2 2, AddMessage [] False 3 3,
                AddMessage [] True 4 4, AddMessage [] False 5 5, AddMessage [] True 6 6])"
  unfolding six_turns
  by (simp add: record_external_click_def get_engagement_score_def true_div_def)

lemma record_external_click_prog_eq:
  "record_external_click_prog w = (Inr (), w\<lparr>this := record_external_click (this w)\<rparr>)"
  by (simp add: record_external_click_prog_def record_external_click_def prog_defs)

lemma record_external_click_prog_changes:
  "this (snd (record_external_click_prog w)) \<noteq> this w"
proof
  assume "this (snd (record_external_click_prog w)) = this w"
  then have "external_clicks (record_external_click (this w)) = external_clicks (this w)"
    by (simp add: record_external_click_prog_eq)
  then show False
    by (simp add: record_external_click_def)
qed

end
